theory Spec2Isabelle
  imports Main
begin

section \<open>The Android fingerprint-auth plugin wrapper\<close>

text \<open>
  The source file \<^verbatim>\<open>src/plugins/android-fingerprint-auth.ts\<close> consists of two interface
  declarations, one decorated class with four static methods whose bodies are \<^verbatim>\<open>return;\<close>,
  and one static table of error strings. The declarations are embedded as data (field name,
  optional marker, declared type) and the table as an association list in source order.
  What a call of a method does is decided by the \<^verbatim>\<open>@Cordova()\<close> decorator of \<^verbatim>\<open>./plugin\<close>
  and by native code, neither of which this file contains; the run-time behaviour of the
  methods is therefore not modelled.
\<close>

subsection \<open>Declared types\<close>

text \<open>
  A declared TypeScript type. A field carries its name, whether it is written with
  \<^verbatim>\<open>?\<close> (optional), and its type. \<open>TRef\<close> is a reference to a type by name.
\<close>

datatype ts_type =
    TString
  | TBoolean
  | TNumber
  | TRef string
  | TObject "ts_field list"
  | TPromise ts_type
and ts_field =
    Field (field_name: string) (field_optional: bool) (field_type: ts_type)

text \<open>\<^verbatim>\<open>export interface AndroidFingerprintAuthOptions { ... }\<close>, fields in source order.\<close>

definition AndroidFingerprintAuthOptions_fields :: "ts_field list" where
  "AndroidFingerprintAuthOptions_fields =
    [ Field ''clientId'' False TString,
      Field ''username'' True TString,
      Field ''password'' True TString,
      Field ''token'' True TString,
      Field ''disableBackup'' True TBoolean,
      Field ''locale'' True TString,
      Field ''maxAttempts'' True TNumber,
      Field ''userAuthRequired'' True TBoolean,
      Field ''dialogTitle'' True TString,
      Field ''dialogMessage'' True TString,
      Field ''dialogHint'' True TString ]"

text \<open>\<^verbatim>\<open>export interface AndroidFingerprintAuthErrors { ... }\<close>, fields in source order.\<close>

definition AndroidFingerprintAuthErrors_fields :: "ts_field list" where
  "AndroidFingerprintAuthErrors_fields =
    [ Field ''BAD_PADDING_EXCEPTION'' False TString,
      Field ''CERTIFICATE_EXCEPTION'' False TString,
      Field ''FINGERPRINT_CANCELLED'' False TString,
      Field ''FINGERPRINT_DATA_NOT_DELETED'' False TString,
      Field ''FINGERPRINT_ERROR'' False TString,
      Field ''FINGERPRINT_NOT_AVAILABLE'' False TString,
      Field ''FINGERPRINT_PERMISSION_DENIED'' False TString,
      Field ''FINGERPRINT_PERMISSION_DENIED_SHOW_REQUEST'' False TString,
      Field ''ILLEGAL_BLOCK_SIZE_EXCEPTION'' False TString,
      Field ''INIT_CIPHER_FAILED'' False TString,
      Field ''INVALID_ALGORITHM_PARAMETER_EXCEPTION'' False TString,
      Field ''IO_EXCEPTION'' False TString,
      Field ''JSON_EXCEPTION'' False TString,
      Field ''MINIMUM_SDK'' False TString,
      Field ''MISSING_ACTION_PARAMETERS'' False TString,
      Field ''MISSING_PARAMETERS'' False TString,
      Field ''NO_SUCH_ALGORITHM_EXCEPTION'' False TString,
      Field ''SECURITY_EXCEPTION'' False TString ]"

subsection \<open>The decorated class\<close>

text \<open>The argument of the \<^verbatim>\<open>@Plugin({...})\<close> decorator on the class.\<close>

record plugin_config =
  pluginName :: string
  plugin :: string
  pluginRef :: string
  repo :: string

definition AndroidFingerprintAuth_plugin :: plugin_config where
  "AndroidFingerprintAuth_plugin =
    \<lparr> pluginName = ''AndroidFingerprintAuth'',
      plugin = ''cordova-plugin-android-fingerprint-auth'',
      pluginRef = ''FingerprintAuth'',
      repo = ''https://github.com/mjwheatley/cordova-plugin-android-fingerprint-auth'' \<rparr>"

text \<open>
  A member of the class body: a method (parameter list and declared return type) or a
  property (declared type). TypeScript members written without an access modifier are
  public; the source writes none. \<open>member_cordova\<close> records the \<^verbatim>\<open>@Cordova()\<close> decorator.
\<close>

datatype visibility = Public | Protected | Private

datatype member_kind =
    Method "ts_field list" ts_type
  | Property ts_type

record class_member =
  member_name :: string
  member_static :: bool
  member_visibility :: visibility
  member_cordova :: bool
  member_kind :: member_kind

text \<open>The four result types, written inline in the source as the promise's type argument.\<close>

definition encrypt_result_fields :: "ts_field list" where
  "encrypt_result_fields =
    [ Field ''withFingerprint'' False TBoolean,
      Field ''withBackup'' False TBoolean,
      Field ''token'' False TString ]"

definition decrypt_result_fields :: "ts_field list" where
  "decrypt_result_fields =
    [ Field ''withFingerprint'' False TBoolean,
      Field ''withBackup'' False TBoolean,
      Field ''password'' False TString ]"

definition isAvailable_result_fields :: "ts_field list" where
  "isAvailable_result_fields = [ Field ''isAvailable'' False TBoolean ]"

definition delete_result_fields :: "ts_field list" where
  "delete_result_fields = [ Field ''deleted'' False TBoolean ]"

text \<open>The inline parameter type of \<^verbatim>\<open>delete\<close>: \<^verbatim>\<open>{clientId: string; username: string; }\<close>.\<close>

definition delete_options_fields :: "ts_field list" where
  "delete_options_fields =
    [ Field ''clientId'' False TString,
      Field ''username'' False TString ]"

text \<open>
  The members of \<^verbatim>\<open>export class AndroidFingerprintAuth\<close>, in source order. The static
  property is annotated with the name \<^verbatim>\<open>IAndroidFingerprintAuthErrors\<close>, as the source
  writes it.
\<close>

definition AndroidFingerprintAuth_members :: "class_member list" where
  "AndroidFingerprintAuth_members =
    [ \<lparr> member_name = ''encrypt'', member_static = True, member_visibility = Public,
        member_cordova = True,
        member_kind = Method [Field ''options'' False (TRef ''AndroidFingerprintAuthOptions'')]
                             (TPromise (TObject encrypt_result_fields)) \<rparr>,
      \<lparr> member_name = ''decrypt'', member_static = True, member_visibility = Public,
        member_cordova = True,
        member_kind = Method [Field ''options'' False (TRef ''AndroidFingerprintAuthOptions'')]
                             (TPromise (TObject decrypt_result_fields)) \<rparr>,
      \<lparr> member_name = ''isAvailable'', member_static = True, member_visibility = Public,
        member_cordova = True,
        member_kind = Method [] (TPromise (TObject isAvailable_result_fields)) \<rparr>,
      \<lparr> member_name = ''delete'', member_static = True, member_visibility = Public,
        member_cordova = True,
        member_kind = Method [Field ''options'' False (TObject delete_options_fields)]
                             (TPromise (TObject delete_result_fields)) \<rparr>,
      \<lparr> member_name = ''ERRORS'', member_static = True, member_visibility = Public,
        member_cordova = False,
        member_kind = Property (TRef ''IAndroidFingerprintAuthErrors'') \<rparr> ]"

subsection \<open>The error table\<close>

text \<open>
  The object literal assigned to \<^verbatim>\<open>static ERRORS\<close>: property name and string value, in
  source order.
\<close>

definition ERRORS :: "(string \<times> string) list" where
  "ERRORS =
    [ (''BAD_PADDING_EXCEPTION'', ''BAD_PADDING_EXCEPTION''),
      (''CERTIFICATE_EXCEPTION'', ''CERTIFICATE_EXCEPTION''),
      (''FINGERPRINT_CANCELLED'', ''FINGERPRINT_CANCELLED''),
      (''FINGERPRINT_DATA_NOT_DELETED'', ''FINGERPRINT_DATA_NOT_DELETED''),
      (''FINGERPRINT_ERROR'', ''FINGERPRINT_ERROR''),
      (''FINGERPRINT_NOT_AVAILABLE'', ''FINGERPRINT_NOT_AVAILABLE''),
      (''FINGERPRINT_PERMISSION_DENIED'', ''FINGERPRINT_PERMISSION_DENIED''),
      (''FINGERPRINT_PERMISSION_DENIED_SHOW_REQUEST'', ''FINGERPRINT_PERMISSION_DENIED_SHOW_REQUEST''),
      (''ILLEGAL_BLOCK_SIZE_EXCEPTION'', ''ILLEGAL_BLOCK_SIZE_EXCEPTION''),
      (''INIT_CIPHER_FAILED'', ''INIT_CIPHER_FAILED''),
      (''INVALID_ALGORITHM_PARAMETER_EXCEPTION'', ''INVALID_ALGORITHM_PARAMETER_EXCEPTION''),
      (''IO_EXCEPTION'', ''IO_EXCEPTION''),
      (''JSON_EXCEPTION'', ''JSON_EXCEPTION''),
      (''MINIMUM_SDK'', ''MINIMUM_SDK''),
      (''MISSING_ACTION_PARAMETERS'', ''MISSING_ACTION_PARAMETERS''),
      (''MISSING_PARAMETERS'', ''MISSING_PARAMETERS''),
      (''NO_SUCH_ALGORITHM_EXCEPTION'', ''NO_SUCH_ALGORITHM_EXCEPTION''),
      (''SECURITY_EXCEPTION'', ''SECURITY_EXCEPTION'') ]"

text \<open>
  The catalog as the specification's External Interfaces section enumerates it, in the
  order written there. It is compared with the table of the source below.
\<close>

definition spec_error_catalog :: "string list" where
  "spec_error_catalog =
    [ ''BAD_PADDING_EXCEPTION'', ''CERTIFICATE_EXCEPTION'', ''FINGERPRINT_CANCELLED'',
      ''FINGERPRINT_DATA_NOT_DELETED'', ''FINGERPRINT_ERROR'', ''FINGERPRINT_NOT_AVAILABLE'',
      ''FINGERPRINT_PERMISSION_DENIED'', ''FINGERPRINT_PERMISSION_DENIED_SHOW_REQUEST'',
      ''ILLEGAL_BLOCK_SIZE_EXCEPTION'', ''INIT_CIPHER_FAILED'',
      ''INVALID_ALGORITHM_PARAMETER_EXCEPTION'', ''IO_EXCEPTION'', ''JSON_EXCEPTION'',
      ''MINIMUM_SDK'', ''MISSING_ACTION_PARAMETERS'', ''MISSING_PARAMETERS'',
      ''NO_SUCH_ALGORITHM_EXCEPTION'', ''SECURITY_EXCEPTION'' ]"

text \<open>Looking a class member up by name, as \<^verbatim>\<open>AndroidFingerprintAuth.<name>\<close> does.\<close>

definition lookup_member :: "string \<Rightarrow> class_member option" where
  "lookup_member n = find (\<lambda>m. member_name m = n) AndroidFingerprintAuth_members"

text \<open>The methods of the class: the members declared with a parameter list.\<close>

fun is_method :: "class_member \<Rightarrow> bool" where
  "is_method m = (case member_kind m of Method ps r \<Rightarrow> True | Property t \<Rightarrow> False)"

fun method_params :: "class_member \<Rightarrow> ts_field list" where
  "method_params m = (case member_kind m of Method ps r \<Rightarrow> ps | Property t \<Rightarrow> [])"

fun method_result :: "class_member \<Rightarrow> ts_field list option" where
  "method_result m =
    (case member_kind m of
       Method ps (TPromise (TObject fs)) \<Rightarrow> Some fs
     | _ \<Rightarrow> None)"

definition operations :: "class_member list" where
  "operations = filter is_method AndroidFingerprintAuth_members"

text \<open>
  Resolving a parameter's declared type to its fields: a reference to
  \<^verbatim>\<open>AndroidFingerprintAuthOptions\<close> is the interface above, an inline object type is its
  own field list.
\<close>

fun resolve_fields :: "ts_type \<Rightarrow> ts_field list option" where
  "resolve_fields (TObject fs) = Some fs"
| "resolve_fields (TRef n) =
    (if n = ''AndroidFingerprintAuthOptions'' then Some AndroidFingerprintAuthOptions_fields
     else if n = ''AndroidFingerprintAuthErrors'' then Some AndroidFingerprintAuthErrors_fields
     else None)"
| "resolve_fields t = None"

definition options_fields_of :: "string \<Rightarrow> ts_field list option" where
  "options_fields_of n =
    (case lookup_member n of
       None \<Rightarrow> None
     | Some m \<Rightarrow>
         (case method_params m of
            [p] \<Rightarrow> resolve_fields (field_type p)
          | _ \<Rightarrow> None))"

definition result_fields_of :: "string \<Rightarrow> ts_field list option" where
  "result_fields_of n = (case lookup_member n of None \<Rightarrow> None | Some m \<Rightarrow> method_result m)"

definition required_names :: "ts_field list \<Rightarrow> string list" where
  "required_names fs = map field_name (filter (\<lambda>f. \<not> field_optional f) fs)"

definition optional_names :: "ts_field list \<Rightarrow> string list" where
  "optional_names fs = map field_name (filter field_optional fs)"

definition field_named :: "ts_field list \<Rightarrow> string \<Rightarrow> ts_field option" where
  "field_named fs n = find (\<lambda>f. field_name f = n) fs"

text \<open>Every field name that occurs in the result type of some method.\<close>

definition all_result_field_names :: "string list" where
  "all_result_field_names =
    concat (map (\<lambda>m. case method_result m of None \<Rightarrow> [] | Some fs \<Rightarrow> map field_name fs)
      operations)"

section \<open>The error table: size, contents, exposure\<close>

text \<open>
  Claim C1, as stated: the exported error catalog contains exactly 17 entries. The table of
  the source has a different length, so the statement fails on the code.
\<close>

theorem ERRORS_seventeen_counterexample: "length ERRORS \<noteq> 17"
  by (simp add: ERRORS_def)

text \<open>
  Claim C1, amended: the exported error catalog (the static \<^verbatim>\<open>ERRORS\<close> of
  \<^verbatim>\<open>AndroidFingerprintAuth\<close>) contains exactly 18 entries, under 18 different keys.
\<close>

theorem ERRORS_eighteen_entries: "length ERRORS = 18 \<and> distinct (map fst ERRORS)"
  by (simp add: ERRORS_def)

text \<open>
  Claim C2: for every key of the table, the value stored under that key is the string equal
  to the key's own name. Reading \<^verbatim>\<open>ERRORS.k\<close> is the lookup \<open>map_of ERRORS k\<close>.
\<close>

theorem ERRORS_value_is_key: "map_of ERRORS k = Some v \<Longrightarrow> v = k"
proof -
  assume "map_of ERRORS k = Some v"
  then have "(k, v) \<in> set ERRORS"
    by (rule map_of_SomeD)
  then show "v = k"
    unfolding ERRORS_def by auto
qed

theorem ERRORS_value_is_key_witness:
  "map_of ERRORS ''FINGERPRINT_CANCELLED'' = Some ''FINGERPRINT_CANCELLED''"
proof -
  obtain v where h: "map_of ERRORS ''FINGERPRINT_CANCELLED'' = Some v"
    by (simp add: ERRORS_def)
  from ERRORS_value_is_key [OF h] h show ?thesis
    by simp
qed

lemma ERRORS_keys: "map fst ERRORS = spec_error_catalog"
  by (simp add: ERRORS_def spec_error_catalog_def)

lemma ERRORS_values: "map snd ERRORS = spec_error_catalog"
  by (simp add: ERRORS_def spec_error_catalog_def)

text \<open>
  Claim C3: the error table is a public static member of the exported class, and the set of
  its error-code strings (its values, and its keys as well) is exactly the catalog that the
  specification enumerates, string for string.
\<close>

theorem ERRORS_public_catalog:
  "map_option (\<lambda>m. (member_static m, member_visibility m)) (lookup_member ''ERRORS'')
     = Some (True, Public)
   \<and> set (map snd ERRORS) = set spec_error_catalog
   \<and> set (map fst ERRORS) = set spec_error_catalog"
  by (simp add: ERRORS_keys ERRORS_values lookup_member_def AndroidFingerprintAuth_members_def)

section \<open>The option and result types\<close>

text \<open>
  Claim C4: in \<^verbatim>\<open>AndroidFingerprintAuthOptions\<close> the field \<^verbatim>\<open>clientId\<close> is the only required
  one; \<^verbatim>\<open>username\<close>, \<^verbatim>\<open>password\<close>, \<^verbatim>\<open>token\<close>, \<^verbatim>\<open>disableBackup\<close>, \<^verbatim>\<open>locale\<close>,
  \<^verbatim>\<open>maxAttempts\<close>, \<^verbatim>\<open>userAuthRequired\<close>, \<^verbatim>\<open>dialogTitle\<close>, \<^verbatim>\<open>dialogMessage\<close> and
  \<^verbatim>\<open>dialogHint\<close> are all optional, and there is no other field.
\<close>

theorem clientId_only_required:
  "required_names AndroidFingerprintAuthOptions_fields = [''clientId'']
   \<and> optional_names AndroidFingerprintAuthOptions_fields =
       [''username'', ''password'', ''token'', ''disableBackup'', ''locale'', ''maxAttempts'',
        ''userAuthRequired'', ''dialogTitle'', ''dialogMessage'', ''dialogHint'']"
  by (simp add: required_names_def optional_names_def AndroidFingerprintAuthOptions_fields_def)

lemma lookup_member_encrypt:
  "lookup_member ''encrypt'' =
    Some \<lparr> member_name = ''encrypt'', member_static = True, member_visibility = Public,
        member_cordova = True,
        member_kind = Method [Field ''options'' False (TRef ''AndroidFingerprintAuthOptions'')]
                             (TPromise (TObject encrypt_result_fields)) \<rparr>"
  by (simp add: lookup_member_def AndroidFingerprintAuth_members_def)

lemma lookup_member_decrypt:
  "lookup_member ''decrypt'' =
    Some \<lparr> member_name = ''decrypt'', member_static = True, member_visibility = Public,
        member_cordova = True,
        member_kind = Method [Field ''options'' False (TRef ''AndroidFingerprintAuthOptions'')]
                             (TPromise (TObject decrypt_result_fields)) \<rparr>"
  by (simp add: lookup_member_def AndroidFingerprintAuth_members_def)

lemma lookup_member_isAvailable:
  "lookup_member ''isAvailable'' =
    Some \<lparr> member_name = ''isAvailable'', member_static = True, member_visibility = Public,
        member_cordova = True,
        member_kind = Method [] (TPromise (TObject isAvailable_result_fields)) \<rparr>"
  by (simp add: lookup_member_def AndroidFingerprintAuth_members_def)

lemma lookup_member_delete:
  "lookup_member ''delete'' =
    Some \<lparr> member_name = ''delete'', member_static = True, member_visibility = Public,
        member_cordova = True,
        member_kind = Method [Field ''options'' False (TObject delete_options_fields)]
                             (TPromise (TObject delete_result_fields)) \<rparr>"
  by (simp add: lookup_member_def AndroidFingerprintAuth_members_def)

text \<open>
  Claim C5: the parameter type of \<^verbatim>\<open>delete\<close> has exactly the fields \<^verbatim>\<open>clientId\<close> and
  \<^verbatim>\<open>username\<close>, both required strings, and its promise resolves with a record of one
  boolean field, the deletion flag.
\<close>

theorem delete_requires_clientId_username:
  "options_fields_of ''delete'' =
     Some [Field ''clientId'' False TString, Field ''username'' False TString]
   \<and> result_fields_of ''delete'' = Some [Field ''deleted'' False TBoolean]"
  by (simp add: options_fields_of_def result_fields_of_def lookup_member_delete
      delete_options_fields_def delete_result_fields_def)

lemma operations_eq: "operations = butlast AndroidFingerprintAuth_members"
  by (simp add: operations_def AndroidFingerprintAuth_members_def)

text \<open>
  Claim C6: the class has exactly four methods, named \<^verbatim>\<open>encrypt\<close>, \<^verbatim>\<open>decrypt\<close>,
  \<^verbatim>\<open>isAvailable\<close> and \<^verbatim>\<open>delete\<close>. Each is exposed (static and public) and dispatched
  through the bridge decorator; each takes at most one parameter, and a parameter it takes is
  the required \<^verbatim>\<open>options\<close>, of an object type; each returns one promise of a record. The
  name the bridge sees (\<^verbatim>\<open>pluginRef\<close>) is \<^verbatim>\<open>FingerprintAuth\<close>.
\<close>

theorem four_operations:
  "map member_name operations = [''encrypt'', ''decrypt'', ''isAvailable'', ''delete'']
   \<and> list_all (\<lambda>m. member_static m \<and> member_visibility m = Public \<and> member_cordova m)
        operations
   \<and> list_all (\<lambda>m. length (method_params m) \<le> 1
          \<and> list_all (\<lambda>p. field_name p = ''options'' \<and> \<not> field_optional p
                 \<and> resolve_fields (field_type p) \<noteq> None) (method_params m))
        operations
   \<and> map (\<lambda>m. length (method_params m)) operations = [1, 1, 0, 1]
   \<and> list_all (\<lambda>m. method_result m \<noteq> None) operations
   \<and> pluginRef AndroidFingerprintAuth_plugin = ''FingerprintAuth''"
  by (simp add: operations_eq AndroidFingerprintAuth_members_def AndroidFingerprintAuth_plugin_def)

text \<open>
  Claim C9: \<^verbatim>\<open>decrypt\<close> takes the plain \<^verbatim>\<open>AndroidFingerprintAuthOptions\<close>, in which both
  \<^verbatim>\<open>username\<close> and \<^verbatim>\<open>token\<close> are optional fields: the type requires neither.
\<close>

theorem decrypt_username_token_optional:
  "options_fields_of ''decrypt'' = Some AndroidFingerprintAuthOptions_fields
   \<and> map_option field_optional (field_named AndroidFingerprintAuthOptions_fields ''username'')
       = Some True
   \<and> map_option field_optional (field_named AndroidFingerprintAuthOptions_fields ''token'')
       = Some True"
  by (simp add: options_fields_of_def lookup_member_decrypt field_named_def
      AndroidFingerprintAuthOptions_fields_def)

lemma all_result_field_names_eq:
  "all_result_field_names =
    [''withFingerprint'', ''withBackup'', ''token'', ''withFingerprint'', ''withBackup'',
     ''password'', ''isAvailable'', ''deleted'']"
  by (simp add: all_result_field_names_def operations_eq AndroidFingerprintAuth_members_def
      encrypt_result_fields_def decrypt_result_fields_def isAvailable_result_fields_def
      delete_result_fields_def)

text \<open>
  Claim C10: the result records carry the concrete field names of the source.
  \<^verbatim>\<open>encrypt\<close> resolves with exactly \<^verbatim>\<open>withFingerprint\<close> (boolean), \<^verbatim>\<open>withBackup\<close> (boolean)
  and \<^verbatim>\<open>token\<close> (string); \<^verbatim>\<open>decrypt\<close> with \<^verbatim>\<open>withFingerprint\<close>, \<^verbatim>\<open>withBackup\<close> and
  \<^verbatim>\<open>password\<close> (string); \<^verbatim>\<open>isAvailable\<close> with \<^verbatim>\<open>isAvailable\<close> (boolean); \<^verbatim>\<open>delete\<close> with
  \<^verbatim>\<open>deleted\<close> (boolean). None of the specification's abstract names
  (\<^verbatim>\<open>wasFingerprintUsed\<close>, \<^verbatim>\<open>wasBackupUsed\<close>, \<^verbatim>\<open>encodedToken\<close>, \<^verbatim>\<open>decryptedPassword\<close>,
  \<^verbatim>\<open>wasDeleted\<close>) is a field of any result.
\<close>

theorem concrete_result_fields:
  "result_fields_of ''encrypt'' =
     Some [Field ''withFingerprint'' False TBoolean, Field ''withBackup'' False TBoolean,
           Field ''token'' False TString]
   \<and> result_fields_of ''decrypt'' =
     Some [Field ''withFingerprint'' False TBoolean, Field ''withBackup'' False TBoolean,
           Field ''password'' False TString]
   \<and> result_fields_of ''isAvailable'' = Some [Field ''isAvailable'' False TBoolean]
   \<and> result_fields_of ''delete'' = Some [Field ''deleted'' False TBoolean]
   \<and> list_all (\<lambda>n. n \<notin> set all_result_field_names)
        [''wasFingerprintUsed'', ''wasBackupUsed'', ''encodedToken'', ''decryptedPassword'',
         ''wasDeleted'']"
  by (simp add: result_fields_of_def lookup_member_encrypt lookup_member_decrypt
      lookup_member_isAvailable lookup_member_delete all_result_field_names_eq
      encrypt_result_fields_def decrypt_result_fields_def isAvailable_result_fields_def
      delete_result_fields_def)

end
